theory Spec2Isabelle
  imports Main
begin

section \<open>Chrome MCP beta header: the module and its integration functions\<close>

text \<open>
  The module \<^verbatim>\<open>chrome-mcp-beta-header.ts\<close> keeps one module-level boolean,
  \<^verbatim>\<open>chromeInChromeMcpUsed\<close>, and exports functions that read or write it. The
  integration module adds \<^verbatim>\<open>onToolExecuted\<close> and
  \<^verbatim>\<open>addChromeMcpBetaHeaderIfNeeded\<close> on top of these exports.

  Every function that touches the module variable is embedded as a function from the
  module state to a pair of its return value and the state after the call. A JavaScript
  string is embedded as a \<^typ>\<open>string\<close>; only equality and prefix comparison of
  strings are used, which compare element by element.
\<close>

subsection \<open>Constants\<close>

definition CHROME_IN_CHROME_MCP_BETA_HEADER :: string where
  "CHROME_IN_CHROME_MCP_BETA_HEADER = ''browser-use-YYYYMMDD''"

definition CLAUDE_IN_CHROME_MCP_SERVER_NAME :: string where
  "CLAUDE_IN_CHROME_MCP_SERVER_NAME = ''claude-in-chrome''"

text \<open>The template literal \<^verbatim>\<open>`mcp__${CLAUDE_IN_CHROME_MCP_SERVER_NAME}__`\<close>.\<close>

definition CHROME_MCP_TOOL_PREFIX :: string where
  "CHROME_MCP_TOOL_PREFIX = ''mcp__'' @ CLAUDE_IN_CHROME_MCP_SERVER_NAME @ ''__''"

definition CHROME_MCP_SESSION_STATE_KEY :: string where
  "CHROME_MCP_SESSION_STATE_KEY = ''chromeInChromeMcpUsed''"

subsection \<open>JavaScript values and the built-ins the code calls\<close>

text \<open>
  The values a caller can pass at run time, whatever the TypeScript annotation says.
  An object is the list of its own data properties.
\<close>

datatype jsval =
    JUndefined
  | JNull
  | JBool bool
  | JNumber int
  | JString string
  | JObject "(string \<times> jsval) list"

datatype js_error = TypeError

text \<open>
  Reading the property \<^verbatim>\<open>chromeInChromeMcpUsed\<close> of a value: \<^verbatim>\<open>undefined\<close> and
  \<^verbatim>\<open>null\<close> have no properties and the read throws; an object yields the property's
  value, or \<^verbatim>\<open>undefined\<close> when it has no such property; a primitive boolean, number or
  string has no property of this name and yields \<^verbatim>\<open>undefined\<close>.
\<close>

fun get_chromeInChromeMcpUsed :: "jsval \<Rightarrow> js_error + jsval" where
  "get_chromeInChromeMcpUsed JUndefined = Inl TypeError"
| "get_chromeInChromeMcpUsed JNull = Inl TypeError"
| "get_chromeInChromeMcpUsed (JObject props) =
     (case map_of props ''chromeInChromeMcpUsed'' of
        None \<Rightarrow> Inr JUndefined
      | Some v \<Rightarrow> Inr v)"
| "get_chromeInChromeMcpUsed _ = Inr JUndefined"

text \<open>
  \<^verbatim>\<open>String.prototype.startsWith\<close> with no position argument: the search string is
  compared with the first characters of the receiver; a search string longer than the
  receiver never matches.
\<close>

definition startsWith :: "string \<Rightarrow> string \<Rightarrow> bool" where
  "startsWith s searchString =
     (if length s < length searchString then False
      else take (length searchString) s = searchString)"

text \<open>\<^verbatim>\<open>Array.prototype.includes\<close> on an array of strings: a scan from the left.\<close>

fun array_includes :: "string list \<Rightarrow> string \<Rightarrow> bool" where
  "array_includes [] x = False"
| "array_includes (y # ys) x = (if y = x then True else array_includes ys x)"

subsection \<open>Module state\<close>

record module_state =
  chromeInChromeMcpUsed :: bool

text \<open>The state after the module has been loaded: \<^verbatim>\<open>let chromeInChromeMcpUsed = false\<close>.\<close>

definition initial_state :: module_state where
  "initial_state = \<lparr>chromeInChromeMcpUsed = False\<rparr>"

subsection \<open>The exported functions of the core module\<close>

definition isChromeInChromeMcpTool :: "string \<Rightarrow> bool" where
  "isChromeInChromeMcpTool toolName = startsWith toolName CHROME_MCP_TOOL_PREFIX"

definition markChromeInChromeMcpToolUsed :: "module_state \<Rightarrow> unit \<times> module_state" where
  "markChromeInChromeMcpToolUsed st = ((), st\<lparr>chromeInChromeMcpUsed := True\<rparr>)"

definition hasChromeInChromeMcpBeenUsed :: "module_state \<Rightarrow> bool \<times> module_state" where
  "hasChromeInChromeMcpBeenUsed st = (chromeInChromeMcpUsed st, st)"

definition getChromeInChromeMcpBetaHeader :: "module_state \<Rightarrow> string option \<times> module_state" where
  "getChromeInChromeMcpBetaHeader st =
     (if chromeInChromeMcpUsed st then (Some CHROME_IN_CHROME_MCP_BETA_HEADER, st)
      else (None, st))"

definition getSessionState :: "module_state \<Rightarrow> jsval \<times> module_state" where
  "getSessionState st =
     (JObject [(''chromeInChromeMcpUsed'', JBool (chromeInChromeMcpUsed st))], st)"

text \<open>
  \<^verbatim>\<open>restoreSessionState\<close> reads the property and compares it with \<^verbatim>\<open>===\<close> against
  \<^verbatim>\<open>true\<close>. When the property read throws, nothing has been assigned yet.
\<close>

definition restoreSessionState :: "jsval \<Rightarrow> module_state \<Rightarrow> (js_error + unit) \<times> module_state" where
  "restoreSessionState state st =
     (case get_chromeInChromeMcpUsed state of
        Inl e \<Rightarrow> (Inl e, st)
      | Inr v \<Rightarrow>
          if v = JBool True then (Inr (), st\<lparr>chromeInChromeMcpUsed := True\<rparr>)
          else (Inr (), st))"

definition resetState :: "module_state \<Rightarrow> unit \<times> module_state" where
  "resetState st = ((), st\<lparr>chromeInChromeMcpUsed := False\<rparr>)"

subsection \<open>The integration functions\<close>

definition onToolExecuted :: "string \<Rightarrow> module_state \<Rightarrow> unit \<times> module_state" where
  "onToolExecuted toolName st =
     (if isChromeInChromeMcpTool toolName then markChromeInChromeMcpToolUsed st
      else ((), st))"

text \<open>
  The guard \<^verbatim>\<open>chromeBetaHeader && !existingBetaHeaders.includes(chromeBetaHeader)\<close>:
  \<^verbatim>\<open>null\<close> and the empty string are falsy, and \<^verbatim>\<open>includes\<close> is only evaluated for a
  truthy header. The spread \<^verbatim>\<open>[...existingBetaHeaders, chromeBetaHeader]\<close> is the input
  followed by the header.
\<close>

definition addChromeMcpBetaHeaderIfNeeded ::
    "string list \<Rightarrow> module_state \<Rightarrow> string list \<times> module_state" where
  "addChromeMcpBetaHeaderIfNeeded existingBetaHeaders st =
     (case getChromeInChromeMcpBetaHeader st of
        (None, st1) \<Rightarrow> (existingBetaHeaders, st1)
      | (Some chromeBetaHeader, st1) \<Rightarrow>
          if chromeBetaHeader \<noteq> [] \<and> \<not> array_includes existingBetaHeaders chromeBetaHeader
          then (existingBetaHeaders @ [chromeBetaHeader], st1)
          else (existingBetaHeaders, st1))"

text \<open>
  The same function on array references. Arrays live in a store indexed by address; the
  argument and the result are addresses. The spread allocates a new array at the next free
  address; the other branch returns the argument's own address.
\<close>

type_synonym ref = nat
type_synonym array_store = "string list list"

definition addChromeMcpBetaHeaderIfNeeded_ref ::
    "ref \<Rightarrow> array_store \<Rightarrow> module_state \<Rightarrow> ref \<times> array_store \<times> module_state" where
  "addChromeMcpBetaHeaderIfNeeded_ref existingBetaHeaders store st =
     (case getChromeInChromeMcpBetaHeader st of
        (None, st1) \<Rightarrow> (existingBetaHeaders, store, st1)
      | (Some chromeBetaHeader, st1) \<Rightarrow>
          if chromeBetaHeader \<noteq> []
             \<and> \<not> array_includes (store ! existingBetaHeaders) chromeBetaHeader
          then (length store, store @ [store ! existingBetaHeaders @ [chromeBetaHeader]], st1)
          else (existingBetaHeaders, store, st1))"

subsection \<open>Calls of the module's interface\<close>

text \<open>
  A host drives the module through its exported functions. \<open>perform\<close> runs one call in a
  module state and gives what the call returned or threw, and the state after it.
  \<open>onToolExecuted_each\<close> is the host calling the tool hook once per executed tool, in order.
\<close>

datatype api_call =
    IsChromeInChromeMcpTool string
  | MarkChromeInChromeMcpToolUsed
  | HasChromeInChromeMcpBeenUsed
  | GetChromeInChromeMcpBetaHeader
  | GetSessionState
  | RestoreSessionState jsval
  | ResetState
  | OnToolExecuted string
  | AddChromeMcpBetaHeaderIfNeeded "string list"

datatype outcome =
    Returned_void
  | Returned_bool bool
  | Returned_header "string option"
  | Returned_state jsval
  | Returned_headers "string list"
  | Thrown js_error

fun perform :: "api_call \<Rightarrow> module_state \<Rightarrow> outcome \<times> module_state" where
  "perform (IsChromeInChromeMcpTool toolName) st =
     (Returned_bool (isChromeInChromeMcpTool toolName), st)"
| "perform MarkChromeInChromeMcpToolUsed st =
     map_prod (\<lambda>u. Returned_void) id (markChromeInChromeMcpToolUsed st)"
| "perform HasChromeInChromeMcpBeenUsed st =
     map_prod Returned_bool id (hasChromeInChromeMcpBeenUsed st)"
| "perform GetChromeInChromeMcpBetaHeader st =
     map_prod Returned_header id (getChromeInChromeMcpBetaHeader st)"
| "perform GetSessionState st =
     map_prod Returned_state id (getSessionState st)"
| "perform (RestoreSessionState state) st =
     map_prod (case_sum Thrown (\<lambda>u. Returned_void)) id (restoreSessionState state st)"
| "perform ResetState st =
     map_prod (\<lambda>u. Returned_void) id (resetState st)"
| "perform (OnToolExecuted toolName) st =
     map_prod (\<lambda>u. Returned_void) id (onToolExecuted toolName st)"
| "perform (AddChromeMcpBetaHeaderIfNeeded existingBetaHeaders) st =
     map_prod Returned_headers id (addChromeMcpBetaHeaderIfNeeded existingBetaHeaders st)"

fun perform_all :: "api_call list \<Rightarrow> module_state \<Rightarrow> module_state" where
  "perform_all [] st = st"
| "perform_all (c # cs) st = perform_all cs (snd (perform c st))"

fun onToolExecuted_each :: "string list \<Rightarrow> module_state \<Rightarrow> module_state" where
  "onToolExecuted_each [] st = st"
| "onToolExecuted_each (toolName # toolNames) st =
     onToolExecuted_each toolNames (snd (onToolExecuted toolName st))"

section \<open>Facts about the built-ins and the constants\<close>

lemma array_includes_set: "array_includes xs x = (x \<in> set xs)"
  by (induction xs) auto

lemma startsWith_append: "startsWith s p = (\<exists>suffix. s = p @ suffix)"
proof
  assume "startsWith s p"
  then have "take (length p) s = p"
    by (simp add: startsWith_def split: if_splits)
  then have "s = p @ drop (length p) s"
    by (metis append_take_drop_id)
  then show "\<exists>suffix. s = p @ suffix" ..
next
  assume "\<exists>suffix. s = p @ suffix"
  then show "startsWith s p"
    by (auto simp: startsWith_def)
qed

lemma prefix_literal: "CHROME_MCP_TOOL_PREFIX = ''mcp__claude-in-chrome__''"
  by (simp add: CHROME_MCP_TOOL_PREFIX_def CLAUDE_IN_CHROME_MCP_SERVER_NAME_def)

lemma header_nonempty: "CHROME_IN_CHROME_MCP_BETA_HEADER \<noteq> []"
  by (simp add: CHROME_IN_CHROME_MCP_BETA_HEADER_def)

section \<open>What each function returns and what it leaves behind\<close>

lemma add_fst:
  "fst (addChromeMcpBetaHeaderIfNeeded xs st) =
     (if chromeInChromeMcpUsed st \<and> CHROME_IN_CHROME_MCP_BETA_HEADER \<notin> set xs
      then xs @ [CHROME_IN_CHROME_MCP_BETA_HEADER] else xs)"
  by (simp add: addChromeMcpBetaHeaderIfNeeded_def getChromeInChromeMcpBetaHeader_def
      array_includes_set header_nonempty)

lemma add_snd: "snd (addChromeMcpBetaHeaderIfNeeded xs st) = st"
  by (simp add: addChromeMcpBetaHeaderIfNeeded_def getChromeInChromeMcpBetaHeader_def)

lemma add_twice:
  "fst (addChromeMcpBetaHeaderIfNeeded (fst (addChromeMcpBetaHeaderIfNeeded xs st))
          (snd (addChromeMcpBetaHeaderIfNeeded xs st))) =
     fst (addChromeMcpBetaHeaderIfNeeded xs st)"
  by (simp add: add_fst add_snd)

lemma add_ref_result:
  "addChromeMcpBetaHeaderIfNeeded_ref r store st =
     (if chromeInChromeMcpUsed st \<and> CHROME_IN_CHROME_MCP_BETA_HEADER \<notin> set (store ! r)
      then (length store, store @ [store ! r @ [CHROME_IN_CHROME_MCP_BETA_HEADER]], st)
      else (r, store, st))"
  by (simp add: addChromeMcpBetaHeaderIfNeeded_ref_def getChromeInChromeMcpBetaHeader_def
      array_includes_set header_nonempty)

lemma restore_object:
  "restoreSessionState (JObject props) st =
     (Inr (), if map_of props ''chromeInChromeMcpUsed'' = Some (JBool True)
              then st\<lparr>chromeInChromeMcpUsed := True\<rparr> else st)"
  by (simp add: restoreSessionState_def split: option.splits)

lemma restore_flag:
  "chromeInChromeMcpUsed st \<Longrightarrow> chromeInChromeMcpUsed (snd (restoreSessionState v st))"
  by (cases "get_chromeInChromeMcpUsed v") (simp_all add: restoreSessionState_def)

lemma perform_keeps_flag:
  "chromeInChromeMcpUsed st \<Longrightarrow> c \<noteq> ResetState \<Longrightarrow> chromeInChromeMcpUsed (snd (perform c st))"
  by (cases c)
    (simp_all add: add_snd restore_flag markChromeInChromeMcpToolUsed_def onToolExecuted_def
      hasChromeInChromeMcpBeenUsed_def getChromeInChromeMcpBetaHeader_def getSessionState_def)

lemma perform_all_keeps_flag:
  "chromeInChromeMcpUsed st \<Longrightarrow> ResetState \<notin> set cs \<Longrightarrow> chromeInChromeMcpUsed (perform_all cs st)"
  by (induction cs arbitrary: st) (auto simp: perform_keeps_flag)

lemma onToolExecuted_snd:
  "snd (onToolExecuted n st) =
     (if isChromeInChromeMcpTool n then st\<lparr>chromeInChromeMcpUsed := True\<rparr> else st)"
  by (simp add: onToolExecuted_def markChromeInChromeMcpToolUsed_def)

lemma onToolExecuted_each_flag:
  "chromeInChromeMcpUsed (onToolExecuted_each ns st) =
     (chromeInChromeMcpUsed st \<or> (\<exists>n \<in> set ns. isChromeInChromeMcpTool n))"
  by (induction ns arbitrary: st) (auto simp: onToolExecuted_snd)

section \<open>The properties of the specification\<close>

text \<open>
  C1. For every list of header values \<open>xs\<close> and every module state:
  when the flag is not set, \<^verbatim>\<open>addChromeMcpBetaHeaderIfNeeded\<close> returns \<open>xs\<close>; when the flag
  is set and the header constant occurs in \<open>xs\<close>, it returns \<open>xs\<close>; otherwise it returns \<open>xs\<close>
  with the header constant appended as the last element. In every case the first
  \<open>length xs\<close> elements of the result are \<open>xs\<close> itself, in the same order.
\<close>

theorem addChromeMcpBetaHeaderIfNeeded_cases:
  "fst (addChromeMcpBetaHeaderIfNeeded xs st) =
     (if \<not> chromeInChromeMcpUsed st then xs
      else if CHROME_IN_CHROME_MCP_BETA_HEADER \<in> set xs then xs
      else xs @ [CHROME_IN_CHROME_MCP_BETA_HEADER])
   \<and> take (length xs) (fst (addChromeMcpBetaHeaderIfNeeded xs st)) = xs"
  by (simp add: add_fst)

text \<open>
  C2. In every state where the flag is true, every call other than \<^verbatim>\<open>resetState\<close>, with any
  argument, leaves the flag true; in particular \<^verbatim>\<open>restoreSessionState\<close> with any argument
  leaves it true. \<^verbatim>\<open>resetState\<close> is the one call that clears it.
\<close>

theorem flag_stays_set:
  assumes "chromeInChromeMcpUsed st"
  shows "(c \<noteq> ResetState \<longrightarrow> chromeInChromeMcpUsed (snd (perform c st)))
       \<and> chromeInChromeMcpUsed (snd (restoreSessionState state st))
       \<and> \<not> chromeInChromeMcpUsed (snd (perform ResetState st))"
  using assms by (simp add: perform_keeps_flag restore_flag resetState_def)

theorem flag_stays_set_witness:
  "chromeInChromeMcpUsed \<lparr>chromeInChromeMcpUsed = True\<rparr>
   \<and> RestoreSessionState (JObject [(''chromeInChromeMcpUsed'', JBool False)]) \<noteq> ResetState
   \<and> chromeInChromeMcpUsed
       (snd (perform (RestoreSessionState (JObject [(''chromeInChromeMcpUsed'', JBool False)]))
          \<lparr>chromeInChromeMcpUsed = True\<rparr>))"
  using flag_stays_set [of "\<lparr>chromeInChromeMcpUsed = True\<rparr>"
      "RestoreSessionState (JObject [(''chromeInChromeMcpUsed'', JBool False)])"]
  by simp

text \<open>
  C3. For every object passed as the argument, \<^verbatim>\<open>restoreSessionState\<close> returns without
  throwing. When the object's property \<^verbatim>\<open>chromeInChromeMcpUsed\<close> is the boolean \<^verbatim>\<open>true\<close> the
  flag is set; for every other property value, and when the property is missing, the state
  is left exactly as it was. So the flag afterwards is the disjunction of the flag before
  and "the property is \<^verbatim>\<open>true\<close>", and restoring \<^verbatim>\<open>{chromeInChromeMcpUsed: false}\<close> on a set
  flag leaves it set.
\<close>

theorem restoreSessionState_or_merge:
  "fst (restoreSessionState (JObject props) st) = Inr ()
   \<and> snd (restoreSessionState (JObject props) st) =
       (if map_of props ''chromeInChromeMcpUsed'' = Some (JBool True)
        then st\<lparr>chromeInChromeMcpUsed := True\<rparr> else st)
   \<and> chromeInChromeMcpUsed (snd (restoreSessionState (JObject props) st)) =
       (chromeInChromeMcpUsed st \<or> map_of props ''chromeInChromeMcpUsed'' = Some (JBool True))
   \<and> chromeInChromeMcpUsed
       (snd (restoreSessionState (JObject [(''chromeInChromeMcpUsed'', JBool False)])
          (st\<lparr>chromeInChromeMcpUsed := True\<rparr>)))"
  by (simp add: restore_object)

text \<open>
  C4. For every string \<open>s\<close>, \<^verbatim>\<open>isChromeInChromeMcpTool\<close> returns true exactly when \<open>s\<close> is the
  prefix \<^verbatim>\<open>"mcp__claude-in-chrome__"\<close> followed by some suffix. Every string built as prefix
  followed by a suffix yields true, the prefix alone (empty suffix) yields true, and the
  empty string yields false. The function is a total function of the string alone.
\<close>

theorem isChromeInChromeMcpTool_iff_prefix:
  "isChromeInChromeMcpTool s = (\<exists>suffix. s = ''mcp__claude-in-chrome__'' @ suffix)
   \<and> isChromeInChromeMcpTool (''mcp__claude-in-chrome__'' @ suffix)
   \<and> isChromeInChromeMcpTool ''mcp__claude-in-chrome__''
   \<and> \<not> isChromeInChromeMcpTool []
   \<and> CHROME_MCP_TOOL_PREFIX = ''mcp__claude-in-chrome__''"
  unfolding isChromeInChromeMcpTool_def startsWith_append prefix_literal
  by simp

text \<open>
  C5. \<^verbatim>\<open>getChromeInChromeMcpBetaHeader\<close> returns \<^verbatim>\<open>null\<close> when the flag is false and the one
  constant string \<^verbatim>\<open>"browser-use-YYYYMMDD"\<close> when the flag is true. It returns \<^verbatim>\<open>null\<close> in
  the initial state, and the constant after \<^verbatim>\<open>markChromeInChromeMcpToolUsed\<close>.
\<close>

theorem getChromeInChromeMcpBetaHeader_value:
  "fst (getChromeInChromeMcpBetaHeader st) =
     (if chromeInChromeMcpUsed st then Some CHROME_IN_CHROME_MCP_BETA_HEADER else None)
   \<and> CHROME_IN_CHROME_MCP_BETA_HEADER = ''browser-use-YYYYMMDD''
   \<and> fst (getChromeInChromeMcpBetaHeader initial_state) = None
   \<and> fst (getChromeInChromeMcpBetaHeader (snd (markChromeInChromeMcpToolUsed st))) =
       Some ''browser-use-YYYYMMDD''"
  by (simp add: getChromeInChromeMcpBetaHeader_def initial_state_def
      markChromeInChromeMcpToolUsed_def CHROME_IN_CHROME_MCP_BETA_HEADER_def)

text \<open>
  C6. Round trip. Take the record \<^verbatim>\<open>getSessionState\<close> returns in any state \<open>st\<close>, and pass it
  to \<^verbatim>\<open>restoreSessionState\<close> in a state that has just been reset (or in the initial state):
  the restore does not throw, and \<^verbatim>\<open>hasChromeInChromeMcpBeenUsed\<close> then returns what it
  returned in \<open>st\<close>.
\<close>

theorem session_state_round_trip:
  "fst (hasChromeInChromeMcpBeenUsed
          (snd (restoreSessionState (fst (getSessionState st)) (snd (resetState st'))))) =
     fst (hasChromeInChromeMcpBeenUsed st)
   \<and> fst (restoreSessionState (fst (getSessionState st)) (snd (resetState st'))) = Inr ()
   \<and> fst (hasChromeInChromeMcpBeenUsed
          (snd (restoreSessionState (fst (getSessionState st)) initial_state))) =
     fst (hasChromeInChromeMcpBeenUsed st)"
  by (simp add: getSessionState_def restore_object resetState_def initial_state_def
      hasChromeInChromeMcpBeenUsed_def)

text \<open>
  C7. Once the flag is set, \<^verbatim>\<open>addChromeMcpBetaHeaderIfNeeded\<close> is idempotent: for every list
  \<open>xs\<close>, calling it on its own result, in the state the first call left, returns that result
  again. The result of the first call contains the header constant.
\<close>

theorem addChromeMcpBetaHeaderIfNeeded_idempotent:
  assumes "chromeInChromeMcpUsed st"
  shows "fst (addChromeMcpBetaHeaderIfNeeded (fst (addChromeMcpBetaHeaderIfNeeded xs st))
            (snd (addChromeMcpBetaHeaderIfNeeded xs st))) =
         fst (addChromeMcpBetaHeaderIfNeeded xs st)
       \<and> CHROME_IN_CHROME_MCP_BETA_HEADER \<in> set (fst (addChromeMcpBetaHeaderIfNeeded xs st))"
  using assms by (simp add: add_twice) (simp add: add_fst)

theorem addChromeMcpBetaHeaderIfNeeded_idempotent_witness:
  "chromeInChromeMcpUsed \<lparr>chromeInChromeMcpUsed = True\<rparr>
   \<and> fst (addChromeMcpBetaHeaderIfNeeded
        (fst (addChromeMcpBetaHeaderIfNeeded [''beta-1'', ''beta-2'']
                \<lparr>chromeInChromeMcpUsed = True\<rparr>))
        (snd (addChromeMcpBetaHeaderIfNeeded [''beta-1'', ''beta-2'']
                \<lparr>chromeInChromeMcpUsed = True\<rparr>)))
     = [''beta-1'', ''beta-2'', ''browser-use-YYYYMMDD'']"
  using addChromeMcpBetaHeaderIfNeeded_idempotent
    [of "\<lparr>chromeInChromeMcpUsed = True\<rparr>" "[''beta-1'', ''beta-2'']"]
  by (simp add: add_fst CHROME_IN_CHROME_MCP_BETA_HEADER_def)

text \<open>
  C8. For every tool name \<open>n\<close>, \<^verbatim>\<open>onToolExecuted\<close> sets the flag when
  \<^verbatim>\<open>isChromeInChromeMcpTool\<close> holds of \<open>n\<close> and leaves the state unchanged otherwise.
  Consequently, after the hook has been called once or more, with names that all qualify,
  from any state, \<^verbatim>\<open>addChromeMcpBetaHeaderIfNeeded\<close> on the empty list returns the one-element
  list of the header constant: a single occurrence.
\<close>

theorem onToolExecuted_marks_once:
  assumes "ns \<noteq> []" and "\<forall>n \<in> set ns. isChromeInChromeMcpTool n"
  shows "snd (onToolExecuted n st) =
           (if isChromeInChromeMcpTool n then st\<lparr>chromeInChromeMcpUsed := True\<rparr> else st)
       \<and> fst (addChromeMcpBetaHeaderIfNeeded [] (onToolExecuted_each ns st)) =
           [CHROME_IN_CHROME_MCP_BETA_HEADER]
       \<and> count_list (fst (addChromeMcpBetaHeaderIfNeeded [] (onToolExecuted_each ns st)))
           CHROME_IN_CHROME_MCP_BETA_HEADER = 1"
proof -
  from assms obtain m where "m \<in> set ns" and "isChromeInChromeMcpTool m"
    by (cases ns) auto
  then have "chromeInChromeMcpUsed (onToolExecuted_each ns st)"
    by (auto simp: onToolExecuted_each_flag)
  then show ?thesis
    by (simp add: onToolExecuted_snd add_fst)
qed

theorem onToolExecuted_marks_once_witness:
  "[''mcp__claude-in-chrome__navigate'', ''mcp__claude-in-chrome__click'',
    ''mcp__claude-in-chrome__read_page'', ''mcp__claude-in-chrome__computer''] \<noteq> []
   \<and> isChromeInChromeMcpTool ''mcp__claude-in-chrome__navigate''
   \<and> isChromeInChromeMcpTool ''mcp__claude-in-chrome__click''
   \<and> isChromeInChromeMcpTool ''mcp__claude-in-chrome__read_page''
   \<and> isChromeInChromeMcpTool ''mcp__claude-in-chrome__computer''
   \<and> fst (addChromeMcpBetaHeaderIfNeeded []
        (onToolExecuted_each [''mcp__claude-in-chrome__navigate'', ''mcp__claude-in-chrome__click'',
           ''mcp__claude-in-chrome__read_page'', ''mcp__claude-in-chrome__computer'']
           initial_state)) = [''browser-use-YYYYMMDD'']"
proof -
  let ?ns = "[''mcp__claude-in-chrome__navigate'', ''mcp__claude-in-chrome__click'',
    ''mcp__claude-in-chrome__read_page'', ''mcp__claude-in-chrome__computer'']"
  have q: "\<forall>n \<in> set ?ns. isChromeInChromeMcpTool n"
    by (simp add: isChromeInChromeMcpTool_def startsWith_def prefix_literal)
  have ne: "?ns \<noteq> []" by simp
  from onToolExecuted_marks_once [OF ne q, of "''Read''" initial_state] q ne show ?thesis
    by (simp add: CHROME_IN_CHROME_MCP_BETA_HEADER_def)
qed

text \<open>
  C9. Frame property. In every state, calling \<^verbatim>\<open>isChromeInChromeMcpTool\<close>,
  \<^verbatim>\<open>hasChromeInChromeMcpBeenUsed\<close>, \<^verbatim>\<open>getChromeInChromeMcpBetaHeader\<close>, \<^verbatim>\<open>getSessionState\<close> or
  \<^verbatim>\<open>addChromeMcpBetaHeaderIfNeeded\<close> returns a value and leaves the module state as it was.
  On array references, \<^verbatim>\<open>addChromeMcpBetaHeaderIfNeeded\<close> called with the address \<open>r\<close> of an
  existing array leaves every existing array of the store, the input among them, with the
  contents it had; the address it returns holds the list the function returns.
\<close>

theorem queries_leave_state:
  assumes "r < length store"
  shows "perform (IsChromeInChromeMcpTool n) st = (Returned_bool (isChromeInChromeMcpTool n), st)
       \<and> perform HasChromeInChromeMcpBeenUsed st = (Returned_bool (chromeInChromeMcpUsed st), st)
       \<and> perform GetChromeInChromeMcpBetaHeader st =
           (Returned_header (fst (getChromeInChromeMcpBetaHeader st)), st)
       \<and> perform GetSessionState st = (Returned_state (fst (getSessionState st)), st)
       \<and> perform (AddChromeMcpBetaHeaderIfNeeded xs) st =
           (Returned_headers (fst (addChromeMcpBetaHeaderIfNeeded xs st)), st)
       \<and> (case addChromeMcpBetaHeaderIfNeeded_ref r store st of
            (r', store', st') \<Rightarrow>
              st' = st
              \<and> take (length store) store' = store
              \<and> store' ! r = store ! r
              \<and> r' < length store'
              \<and> store' ! r' = fst (addChromeMcpBetaHeaderIfNeeded (store ! r) st))"
proof -
  have "perform (AddChromeMcpBetaHeaderIfNeeded xs) st =
          (Returned_headers (fst (addChromeMcpBetaHeaderIfNeeded xs st)), st)"
    using add_snd [of xs st] by (cases "addChromeMcpBetaHeaderIfNeeded xs st") simp
  moreover have "perform GetChromeInChromeMcpBetaHeader st =
          (Returned_header (fst (getChromeInChromeMcpBetaHeader st)), st)"
    by (simp add: getChromeInChromeMcpBetaHeader_def)
  moreover have "case addChromeMcpBetaHeaderIfNeeded_ref r store st of
            (r', store', st') \<Rightarrow>
              st' = st
              \<and> take (length store) store' = store
              \<and> store' ! r = store ! r
              \<and> r' < length store'
              \<and> store' ! r' = fst (addChromeMcpBetaHeaderIfNeeded (store ! r) st)"
    using assms by (simp add: add_ref_result add_fst nth_append)
  ultimately show ?thesis
    by (simp add: hasChromeInChromeMcpBeenUsed_def getSessionState_def)
qed

theorem queries_leave_state_witness:
  "(0::nat) < length [[''beta-1'']]
   \<and> addChromeMcpBetaHeaderIfNeeded_ref 0 [[''beta-1'']] \<lparr>chromeInChromeMcpUsed = True\<rparr> =
       (1, [[''beta-1''], [''beta-1'', ''browser-use-YYYYMMDD'']],
        \<lparr>chromeInChromeMcpUsed = True\<rparr>)
   \<and> perform (AddChromeMcpBetaHeaderIfNeeded [''beta-1'']) \<lparr>chromeInChromeMcpUsed = True\<rparr> =
       (Returned_headers [''beta-1'', ''browser-use-YYYYMMDD''],
        \<lparr>chromeInChromeMcpUsed = True\<rparr>)"
  using queries_leave_state [of 0 "[[''beta-1'']]" "''Read''"
      "\<lparr>chromeInChromeMcpUsed = True\<rparr>" "[''beta-1'']"]
  by (simp add: add_ref_result add_fst CHROME_IN_CHROME_MCP_BETA_HEADER_def)

text \<open>
  C10. For every list \<open>xs\<close> in which the header constant occurs at most once, the list
  \<^verbatim>\<open>addChromeMcpBetaHeaderIfNeeded\<close> returns also contains it at most once, and exactly once
  when the flag is set.
\<close>

theorem header_occurs_at_most_once:
  assumes "count_list xs CHROME_IN_CHROME_MCP_BETA_HEADER \<le> 1"
  shows "count_list (fst (addChromeMcpBetaHeaderIfNeeded xs st)) CHROME_IN_CHROME_MCP_BETA_HEADER \<le> 1
       \<and> (chromeInChromeMcpUsed st \<longrightarrow>
            count_list (fst (addChromeMcpBetaHeaderIfNeeded xs st))
              CHROME_IN_CHROME_MCP_BETA_HEADER = 1)"
proof -
  have "CHROME_IN_CHROME_MCP_BETA_HEADER \<in> set xs \<Longrightarrow>
        count_list xs CHROME_IN_CHROME_MCP_BETA_HEADER = 1"
    using assms count_list_0_iff [of xs CHROME_IN_CHROME_MCP_BETA_HEADER] by arith
  moreover have "CHROME_IN_CHROME_MCP_BETA_HEADER \<notin> set xs \<Longrightarrow>
        count_list xs CHROME_IN_CHROME_MCP_BETA_HEADER = 0"
    by (simp add: count_list_0_iff)
  ultimately show ?thesis
    using assms by (auto simp: add_fst)
qed

theorem header_occurs_at_most_once_witness:
  "count_list [''beta-1'', ''browser-use-YYYYMMDD''] CHROME_IN_CHROME_MCP_BETA_HEADER \<le> 1
   \<and> chromeInChromeMcpUsed \<lparr>chromeInChromeMcpUsed = True\<rparr>
   \<and> count_list
       (fst (addChromeMcpBetaHeaderIfNeeded [''beta-1'', ''browser-use-YYYYMMDD'']
          \<lparr>chromeInChromeMcpUsed = True\<rparr>))
       CHROME_IN_CHROME_MCP_BETA_HEADER = 1"
proof -
  have h: "count_list [''beta-1'', ''browser-use-YYYYMMDD''] CHROME_IN_CHROME_MCP_BETA_HEADER \<le> 1"
    by (simp add: CHROME_IN_CHROME_MCP_BETA_HEADER_def)
  from header_occurs_at_most_once [OF h, of "\<lparr>chromeInChromeMcpUsed = True\<rparr>"] h
  show ?thesis by simp
qed

end
